theory Spec2Isabelle
  imports Complex_Main
begin

section \<open>JavaScript values used by the program\<close>

text \<open>
  A thrown value. \<open>err.message\<close> is undefined for a thrown value that is not an
  \<open>Error\<close> (the \<open>FileReader\<close> rejects with a progress event), hence the option.
\<close>

datatype js_error = JsError (message: "string option")

text \<open>
  An awaited call either yields a value or throws: \<open>Inl\<close> is the thrown value.
  Every awaited call is taken to settle.
\<close>

type_synonym 'a outcome = "js_error + 'a"

type_synonym bytes = "nat list"

definition newline :: char where
  "newline = CHR 0x0A"

text \<open>\<open>Array.prototype.join\<close> on an array of strings.\<close>

fun array_join :: "string \<Rightarrow> string list \<Rightarrow> string" where
  "array_join sep [] = []"
| "array_join sep [x] = x"
| "array_join sep (x # y # ys) = x @ sep @ array_join sep (y # ys)"

text \<open>\<open>String.prototype.split\<close> with a one-character separator.\<close>

fun string_split :: "char \<Rightarrow> string \<Rightarrow> string list" where
  "string_split c [] = [[]]"
| "string_split c (x # xs) =
     (if x = c then [] # string_split c xs
      else (case string_split c xs of
              [] \<Rightarrow> [[x]]
            | y # ys \<Rightarrow> (x # y) # ys))"

text \<open>Reading an array element: undefined out of range.\<close>

definition array_get :: "'a list \<Rightarrow> nat \<Rightarrow> 'a option" where
  "array_get xs i = (if i < length xs then Some (xs ! i) else None)"

text \<open>The decimal digits of a non-negative integer, as a template literal prints it.\<close>

definition digit_char :: "nat \<Rightarrow> char" where
  "digit_char d = ''0123456789'' ! d"

function string_of_nat :: "nat \<Rightarrow> string" where
  "string_of_nat n =
     (if n < 10 then [digit_char n]
      else string_of_nat (n div 10) @ [digit_char (n mod 10)])"
  by pat_completeness auto
termination
  by (relation "measure id") auto

declare string_of_nat.simps [simp del]

section \<open>types.ts\<close>

record ParsedElement =
  elem_type :: string
  content :: string

record ParsedPage =
  pageNumber :: nat
  pageRawText :: string
  structuredElements :: "ParsedElement list"

record ParsedMetadata =
  title :: string
  author :: string
  summary :: string
  language :: string
  topic :: string

text \<open>
  \<open>amount\<close> is a JavaScript number; the model takes the real number a finite
  double denotes (JSON has no NaN).
\<close>

record Transaction =
  post_date :: string
  trans_date :: string
  description :: string
  amount :: real
  currency :: string

record TokenUsage =
  promptTokens :: nat
  responseTokens :: nat
  totalTokens :: nat

record PdfParseResult =
  metadata :: ParsedMetadata
  pages :: "ParsedPage list"
  transactions :: "Transaction list option"
  standardRawText :: "string option"
  tokenUsage :: "TokenUsage option"

datatype ParseStatus = IDLE | PROCESSING | SUCCESS | ERROR

text \<open>
  A browser \<open>File\<close>: its name, its declared MIME type (\<open>file.type\<close>), and what
  reading it gives (\<open>file.arrayBuffer()\<close>, and the data URL the \<open>FileReader\<close>
  produces, or the value it rejects with).
\<close>

record File =
  file_name :: string
  file_type :: string
  arrayBuffer :: "bytes outcome"
  readAsDataURL :: "string outcome"

section \<open>services/localPdfService.ts\<close>

text \<open>
  The interface of the PDF library, as the code consumes it. The items of a page are
  its text items, each with its string \<open>str\<close>.
\<close>

record text_item =
  str :: string

record text_content =
  items :: "text_item list"

record pdf_page =
  getTextContent :: "text_content outcome"

record pdf_document =
  numPages :: nat
  getPage :: "nat \<Rightarrow> pdf_page outcome"

record pdfjsLib =
  getDocument :: "bytes \<Rightarrow> pdf_document outcome"

definition local_sentinel :: string where
  "local_sentinel = ''Error: Could not extract raw text from PDF for comparison.''"

text \<open>The template literal appended for page \<open>i\<close>.\<close>

definition page_block :: "nat \<Rightarrow> string \<Rightarrow> string" where
  "page_block i pageText =
     ''--- PAGE '' @ string_of_nat i @ '' ---'' @ [newline, newline] @ pageText @ [newline, newline]"

definition page_text :: "text_content \<Rightarrow> string" where
  "page_text textContent = array_join '' '' (map str (items textContent))"

text \<open>The \<open>for\<close> loop, from page \<open>i\<close> on, with the text accumulated so far.\<close>

function pages_loop :: "pdf_document \<Rightarrow> nat \<Rightarrow> string \<Rightarrow> string outcome" where
  "pages_loop pdf i fullText =
     (if i \<le> numPages pdf then
        (case getPage pdf i of
           Inl e \<Rightarrow> Inl e
         | Inr page \<Rightarrow>
             (case getTextContent page of
                Inl e \<Rightarrow> Inl e
              | Inr textContent \<Rightarrow>
                  pages_loop pdf (i + 1) (fullText @ page_block i (page_text textContent))))
      else Inr fullText)"
  by pat_completeness auto
termination
  by (relation "measure (\<lambda>(pdf, i, fullText). Suc (numPages pdf) - i)") auto

declare pages_loop.simps [simp del]

text \<open>The body of the \<open>try\<close> block.\<close>

definition parsePdfLocal_try :: "pdfjsLib \<Rightarrow> File \<Rightarrow> string outcome" where
  "parsePdfLocal_try lib file =
     (case arrayBuffer file of
        Inl e \<Rightarrow> Inl e
      | Inr buf \<Rightarrow>
          (case getDocument lib buf of
             Inl e \<Rightarrow> Inl e
           | Inr pdf \<Rightarrow> pages_loop pdf 1 []))"

definition parsePdfLocal :: "pdfjsLib \<Rightarrow> File \<Rightarrow> string" where
  "parsePdfLocal lib file =
     (case parsePdfLocal_try lib file of
        Inr fullText \<Rightarrow> fullText
      | Inl error \<Rightarrow> local_sentinel)"

section \<open>services/geminiService.ts\<close>

record inline_data =
  data :: "string option"
  mimeType :: string

text \<open>
  \<open>fileToGenerativePart\<close>: the data URL is split at the commas and the second piece
  kept (undefined when there is none); a reader error rejects.
\<close>

definition fileToGenerativePart :: "File \<Rightarrow> inline_data outcome" where
  "fileToGenerativePart file =
     (case readAsDataURL file of
        Inl e \<Rightarrow> Inl e
      | Inr base64String \<Rightarrow>
          Inr \<lparr>data = array_get (string_split CHR '','' base64String) 1,
               mimeType = file_type file\<rparr>)"

record usage_metadata =
  promptTokenCount :: "nat option"
  candidatesTokenCount :: "nat option"
  totalTokenCount :: "nat option"

record response =
  resp_text :: "string option"
  usageMetadata :: "usage_metadata option"

text \<open>
  The remote service and the JSON parser, as the code consumes them: the call
  \<open>ai.models.generateContent\<close> (model, prompt and schema are constants of the
  request) and \<open>JSON.parse\<close> followed by the cast to \<open>PdfParseResult\<close>.
\<close>

record remote_service =
  generateContent :: "inline_data \<Rightarrow> response outcome"
  JSON_parse :: "string \<Rightarrow> PdfParseResult outcome"

definition no_text_error :: js_error where
  "no_text_error = JsError (Some ''No response text received from Gemini.'')"

text \<open>\<open>usage?.field || 0\<close> on an optional counter.\<close>

definition or_zero :: "nat option \<Rightarrow> nat" where
  "or_zero c = (case c of None \<Rightarrow> 0 | Some n \<Rightarrow> (if n = 0 then 0 else n))"

definition usage_field :: "usage_metadata option \<Rightarrow> (usage_metadata \<Rightarrow> nat option) \<Rightarrow> nat option" where
  "usage_field usage f = (case usage of None \<Rightarrow> None | Some u \<Rightarrow> f u)"

definition token_usage_of :: "response \<Rightarrow> TokenUsage" where
  "token_usage_of resp =
     (let usage = usageMetadata resp
      in \<lparr>promptTokens = or_zero (usage_field usage promptTokenCount),
          responseTokens = or_zero (usage_field usage candidatesTokenCount),
          totalTokens = or_zero (usage_field usage totalTokenCount)\<rparr>)"

text \<open>\<open>!response.text\<close>: the text is undefined or the empty string.\<close>

definition text_missing :: "response \<Rightarrow> bool" where
  "text_missing resp = (case resp_text resp of None \<Rightarrow> True | Some s \<Rightarrow> s = [])"

text \<open>The body of the \<open>try\<close> block.\<close>

definition parsePdfWithGemini_try :: "remote_service \<Rightarrow> File \<Rightarrow> PdfParseResult outcome" where
  "parsePdfWithGemini_try svc file =
     (case fileToGenerativePart file of
        Inl e \<Rightarrow> Inl e
      | Inr pdfPart \<Rightarrow>
          (case generateContent svc pdfPart of
             Inl e \<Rightarrow> Inl e
           | Inr resp \<Rightarrow>
               (if text_missing resp then Inl no_text_error
                else (case JSON_parse svc (the (resp_text resp)) of
                        Inl e \<Rightarrow> Inl e
                      | Inr jsonResult \<Rightarrow>
                          Inr (jsonResult\<lparr>tokenUsage := Some (token_usage_of resp)\<rparr>)))))"

text \<open>The \<open>catch\<close> logs the error and throws it again.\<close>

definition parsePdfWithGemini :: "remote_service \<Rightarrow> File \<Rightarrow> PdfParseResult outcome" where
  "parsePdfWithGemini svc file =
     (case parsePdfWithGemini_try svc file of
        Inr r \<Rightarrow> Inr r
      | Inl error \<Rightarrow> Inl error)"

section \<open>App.tsx\<close>

record app_state =
  status :: ParseStatus
  result :: "PdfParseResult option"
  errorMsg :: "string option"
  app_file :: "File option"

definition initial_app :: app_state where
  "initial_app = \<lparr>status = IDLE, result = None, errorMsg = None, app_file = None\<rparr>"

text \<open>
  \<open>Promise.all\<close> on two settled promises: both values, or the rejection. When both
  reject the earlier one in time wins in JavaScript; the model takes the first of the
  array.
\<close>

definition promise_all2 :: "'a outcome \<Rightarrow> 'b outcome \<Rightarrow> ('a \<times> 'b) outcome" where
  "promise_all2 p q =
     (case p of
        Inl e \<Rightarrow> Inl e
      | Inr a \<Rightarrow> (case q of Inl e \<Rightarrow> Inl e | Inr b \<Rightarrow> Inr (a, b)))"

definition unknown_error_msg :: string where
  "unknown_error_msg = ''An unknown error occurred while parsing the PDF.''"

text \<open>\<open>err.message || "..."\<close>.\<close>

definition error_text :: "js_error \<Rightarrow> string" where
  "error_text err =
     (case message err of
        None \<Rightarrow> unknown_error_msg
      | Some m \<Rightarrow> (if m = [] then unknown_error_msg else m))"

definition handleFileSelected ::
  "remote_service \<Rightarrow> pdfjsLib \<Rightarrow> app_state \<Rightarrow> File \<Rightarrow> app_state" where
  "handleFileSelected svc lib st selectedFile =
     (let st1 = st\<lparr>status := PROCESSING, errorMsg := None,
                    app_file := Some selectedFile, result := None\<rparr>
      in case promise_all2 (parsePdfWithGemini svc selectedFile)
                           (Inr (parsePdfLocal lib selectedFile)) of
           Inr (aiResult, rawText) \<Rightarrow>
             st1\<lparr>result := Some (aiResult\<lparr>standardRawText := Some rawText\<rparr>),
                 status := SUCCESS\<rparr>
         | Inl err \<Rightarrow>
             st1\<lparr>errorMsg := Some (error_text err), status := ERROR\<rparr>)"

definition handleReset :: "app_state \<Rightarrow> app_state" where
  "handleReset st = st\<lparr>status := IDLE, result := None, errorMsg := None, app_file := None\<rparr>"

section \<open>components/FileUpload.tsx\<close>

text \<open>
  What a handler does besides updating \<open>isDragging\<close>: nothing, the call
  \<open>onFileSelected(file)\<close>, or the alert. The argument \<open>files\<close> is
  \<open>e.dataTransfer.files\<close> (or \<open>e.target.files\<close>), which may be null.
\<close>

datatype upload_effect = NoEffect | OnFileSelected File | Alert string

text \<open>\<open>handleDrop\<close> returns the new \<open>isDragging\<close> and the effect.\<close>

definition handleDrop :: "bool \<Rightarrow> File list option \<Rightarrow> bool \<times> upload_effect" where
  "handleDrop isLoading files =
     (False,
      if isLoading then NoEffect
      else (case files of
              None \<Rightarrow> NoEffect
            | Some [] \<Rightarrow> NoEffect
            | Some (f # rest) \<Rightarrow>
                (if file_type f = ''application/pdf'' then OnFileSelected f
                 else Alert ''Please upload a PDF file.'')))"

definition handleFileChange :: "bool \<Rightarrow> File list option \<Rightarrow> upload_effect" where
  "handleFileChange isLoading files =
     (if isLoading then NoEffect
      else (case files of
              None \<Rightarrow> NoEffect
            | Some [] \<Rightarrow> NoEffect
            | Some (f # rest) \<Rightarrow>
                (if file_type f = ''application/pdf'' then OnFileSelected f
                 else Alert ''Please upload a PDF file.'')))"

text \<open>
  The application renders the widget with \<open>onFileSelected = handleFileSelected\<close> and
  \<open>isLoading = (status = PROCESSING)\<close>; the two extraction branches run only inside
  \<open>handleFileSelected\<close>.
\<close>

definition app_effect ::
  "remote_service \<Rightarrow> pdfjsLib \<Rightarrow> app_state \<Rightarrow> upload_effect \<Rightarrow> app_state" where
  "app_effect svc lib st eff =
     (case eff of
        OnFileSelected f \<Rightarrow> handleFileSelected svc lib st f
      | NoEffect \<Rightarrow> st
      | Alert msg \<Rightarrow> st)"

definition app_drop ::
  "remote_service \<Rightarrow> pdfjsLib \<Rightarrow> app_state \<Rightarrow> File list option \<Rightarrow> app_state" where
  "app_drop svc lib st files =
     app_effect svc lib st (snd (handleDrop (status st = PROCESSING) files))"

definition app_file_change ::
  "remote_service \<Rightarrow> pdfjsLib \<Rightarrow> app_state \<Rightarrow> File list option \<Rightarrow> app_state" where
  "app_file_change svc lib st files =
     app_effect svc lib st (handleFileChange (status st = PROCESSING) files)"

section \<open>components/JsonViewer.tsx\<close>

datatype Tab = TabAiJson | TabRawText | TabTransactions

definition hasTransactions :: "PdfParseResult \<Rightarrow> bool" where
  "hasTransactions d =
     (case transactions d of None \<Rightarrow> False | Some txs \<Rightarrow> length txs > 0)"

text \<open>
  The tab buttons in the order they are rendered; the Transactions button carries
  its badge, \<open>data.transactions?.length\<close>.
\<close>

datatype tab_button = AiJsonButton | TransactionsButton "nat option" | RawTextButton

definition tab_buttons :: "PdfParseResult \<Rightarrow> tab_button list" where
  "tab_buttons d =
     [AiJsonButton]
     @ (if hasTransactions d then [TransactionsButton (map_option length (transactions d))] else [])
     @ [RawTextButton]"

fun button_tab :: "tab_button \<Rightarrow> Tab" where
  "button_tab AiJsonButton = TabAiJson"
| "button_tab (TransactionsButton badge) = TabTransactions"
| "button_tab RawTextButton = TabRawText"

text \<open>
  A click sets \<open>activeTab\<close>; only a rendered button can be clicked. The viewer is
  mounted with \<open>activeTab = 'ai-json'\<close> each time a result is shown.
\<close>

definition click_tab :: "PdfParseResult \<Rightarrow> Tab \<Rightarrow> tab_button \<Rightarrow> Tab" where
  "click_tab d activeTab b = (if b \<in> set (tab_buttons d) then button_tab b else activeTab)"

definition viewer_tab :: "PdfParseResult \<Rightarrow> tab_button list \<Rightarrow> Tab" where
  "viewer_tab d clicks = foldl (click_tab d) TabAiJson clicks"

subsection \<open>CSV export\<close>

definition dquote :: char where
  "dquote = CHR 0x22"

text \<open>The global replacement of each double quote by two.\<close>

fun escape_quotes :: "string \<Rightarrow> string" where
  "escape_quotes [] = []"
| "escape_quotes (c # cs) =
     (if c = dquote then dquote # dquote # escape_quotes cs else c # escape_quotes cs)"

definition csv_headers :: "string list" where
  "csv_headers = [''Post Date'', ''Trans Date'', ''Description'', ''Amount'', ''Currency'']"

text \<open>
  One row of the export; \<open>numberToString\<close> is the conversion \<open>join\<close> applies to
  the amount.
\<close>

definition csv_row :: "(real \<Rightarrow> string) \<Rightarrow> Transaction \<Rightarrow> string list" where
  "csv_row numberToString t =
     [post_date t,
      trans_date t,
      [dquote] @ escape_quotes (description t) @ [dquote],
      numberToString (amount t),
      currency t]"

definition csv_content :: "(real \<Rightarrow> string) \<Rightarrow> PdfParseResult \<Rightarrow> string" where
  "csv_content numberToString d =
     (let rows = map_option (map (csv_row numberToString)) (transactions d)
      in array_join [newline]
           (array_join '','' csv_headers
            # (case map_option (map (array_join '','')) rows of
                 Some lines \<Rightarrow> lines
               | None \<Rightarrow> [])))"

text \<open>
  What \<open>handleDownload\<close> hands to the browser: content, MIME type and extension
  (the file name, built from \<open>fileName\<close>, is left out).
  \<open>stringify\<close> is \<open>JSON.stringify(data, null, 2)\<close>.
\<close>

record download =
  dl_content :: string
  dl_mimeType :: string
  dl_extension :: string

definition handleDownload ::
  "(PdfParseResult \<Rightarrow> string) \<Rightarrow> (real \<Rightarrow> string) \<Rightarrow> PdfParseResult \<Rightarrow> Tab \<Rightarrow> download" where
  "handleDownload stringify numberToString d activeTab =
     (case activeTab of
        TabAiJson \<Rightarrow>
          \<lparr>dl_content = stringify d, dl_mimeType = ''application/json'', dl_extension = ''json''\<rparr>
      | TabRawText \<Rightarrow>
          \<lparr>dl_content = (case standardRawText d of None \<Rightarrow> [] | Some s \<Rightarrow> s),
           dl_mimeType = ''text/plain'', dl_extension = ''txt''\<rparr>
      | TabTransactions \<Rightarrow>
          \<lparr>dl_content = csv_content numberToString d,
           dl_mimeType = ''text/csv'', dl_extension = ''csv''\<rparr>)"

subsection \<open>Transaction table\<close>

text \<open>
  \<open>Number.prototype.toFixed(2)\<close> on a finite number: the sign, then the integer
  \<open>n\<close> nearest to \<open>100 x\<close> (the larger one on a tie) printed with two decimals;
  from \<open>10^21\<close> on, the number's own string.
\<close>

definition toFixed2 :: "(real \<Rightarrow> string) \<Rightarrow> real \<Rightarrow> string" where
  "toFixed2 numberToString x0 =
     (let s = (if x0 < 0 then ''-'' else '''');
          x = (if x0 < 0 then - x0 else x0)
      in if x \<ge> 10 ^ 21 then s @ numberToString x
         else let n = nat \<lfloor>x * 100 + 1 / 2\<rfloor>;
                  m = string_of_nat n;
                  m' = (if length m \<le> 2 then replicate (3 - length m) CHR ''0'' @ m else m);
                  k = length m'
              in s @ take (k - 2) m' @ ''.'' @ drop (k - 2) m')"

record amount_cell =
  cell_className :: string
  cell_sign :: string
  cell_magnitude :: string
  cell_currency :: string

definition render_amount :: "(real \<Rightarrow> string) \<Rightarrow> Transaction \<Rightarrow> amount_cell" where
  "render_amount numberToString tx =
     \<lparr>cell_className =
        ''px-4 py-3 text-right font-mono font-medium whitespace-nowrap ''
        @ (if amount tx < 0 then ''text-emerald-400'' else ''text-slate-200''),
      cell_sign = (if amount tx > 0 then '''' else ''+''),
      cell_magnitude = toFixed2 numberToString \<bar>amount tx\<bar>,
      cell_currency = currency tx\<rparr>"

record table_row =
  row_trans_date :: string
  row_post_date :: "string option"
  row_description :: string
  row_amount :: amount_cell

definition render_row :: "(real \<Rightarrow> string) \<Rightarrow> Transaction \<Rightarrow> table_row" where
  "render_row numberToString tx =
     \<lparr>row_trans_date = trans_date tx,
      row_post_date = (if post_date tx \<noteq> trans_date tx then Some (post_date tx) else None),
      row_description = description tx,
      row_amount = render_amount numberToString tx\<rparr>"

text \<open>The table is rendered when the tab is active and \<open>data.transactions\<close> exists.\<close>

definition transactions_table ::
  "(real \<Rightarrow> string) \<Rightarrow> PdfParseResult \<Rightarrow> Tab \<Rightarrow> table_row list option" where
  "transactions_table numberToString d activeTab =
     (if activeTab = TabTransactions
      then map_option (map (render_row numberToString)) (transactions d)
      else None)"

section \<open>Vocabulary of the properties\<close>

subsection \<open>Local extraction\<close>

text \<open>Page \<open>k\<close> can be read: neither \<open>getPage\<close> nor \<open>getTextContent\<close> throws.\<close>

definition page_ok :: "pdf_document \<Rightarrow> nat \<Rightarrow> bool" where
  "page_ok pdf k =
     (case getPage pdf k of
        Inl e \<Rightarrow> False
      | Inr page \<Rightarrow> (case getTextContent page of Inl e \<Rightarrow> False | Inr tc \<Rightarrow> True))"

text \<open>The text items of page \<open>k\<close>.\<close>

definition page_tokens :: "pdf_document \<Rightarrow> nat \<Rightarrow> string list" where
  "page_tokens pdf k =
     (case getPage pdf k of
        Inl e \<Rightarrow> []
      | Inr page \<Rightarrow> (case getTextContent page of Inl e \<Rightarrow> [] | Inr tc \<Rightarrow> map str (items tc)))"

text \<open>Some call of the local branch throws: reading the file, loading the document, or a page.\<close>

definition local_throws :: "pdfjsLib \<Rightarrow> File \<Rightarrow> bool" where
  "local_throws lib f =
     (case arrayBuffer f of
        Inl e \<Rightarrow> True
      | Inr buf \<Rightarrow>
          (case getDocument lib buf of
             Inl e \<Rightarrow> True
           | Inr pdf \<Rightarrow> (\<exists>k \<in> {1..numPages pdf}. \<not> page_ok pdf k)))"

text \<open>The described output: tokens separated by one space, a marker before each page.\<close>

definition spaced :: "string list \<Rightarrow> string" where
  "spaced tokens =
     (case tokens of [] \<Rightarrow> [] | t # ts \<Rightarrow> t @ concat (map (\<lambda>u. '' '' @ u) ts))"

definition marked_page :: "nat \<Rightarrow> string list \<Rightarrow> string" where
  "marked_page i tokens =
     ''--- PAGE '' @ string_of_nat i @ '' ---'' @ [newline] @ [newline]
     @ spaced tokens @ [newline] @ [newline]"

definition local_text_spec :: "pdf_document \<Rightarrow> string" where
  "local_text_spec pdf =
     concat (map (\<lambda>i. marked_page i (page_tokens pdf i)) [1..<Suc (numPages pdf)])"

subsection \<open>Reading a CSV field back\<close>

text \<open>
  After the opening quote: two quotes stand for one, a single quote closes the field.
  The result is the field's text and the input after the closing quote.
\<close>

fun scan_quoted :: "string \<Rightarrow> (string \<times> string) option" where
  "scan_quoted [] = None"
| "scan_quoted [c] = (if c = dquote then Some ([], []) else None)"
| "scan_quoted (c # d # cs) =
     (if c = dquote then
        (if d = dquote then map_option (apfst ((#) dquote)) (scan_quoted cs)
         else Some ([], d # cs))
      else map_option (apfst ((#) c)) (scan_quoted (d # cs)))"

text \<open>A whole field: unwrap the quotes, undouble, nothing may follow.\<close>

definition parse_field :: "string \<Rightarrow> string option" where
  "parse_field s =
     (case s of
        [] \<Rightarrow> None
      | c # cs \<Rightarrow>
          (if c = dquote then
             (case scan_quoted cs of
                None \<Rightarrow> None
              | Some (d, rest) \<Rightarrow> (if rest = [] then Some d else None))
           else None))"

text \<open>One line of the export.\<close>

definition csv_line :: "(real \<Rightarrow> string) \<Rightarrow> Transaction \<Rightarrow> string" where
  "csv_line numberToString t = array_join '','' (csv_row numberToString t)"

subsection \<open>Sample inputs\<close>

definition sample_file :: File where
  "sample_file =
     \<lparr>file_name = ''statement.pdf'', file_type = ''application/pdf'',
      arrayBuffer = Inr [37, 80, 68, 70],
      readAsDataURL = Inr ''data:application/pdf;base64,JVBERg==''\<rparr>"

definition sample_text_file :: File where
  "sample_text_file = sample_file\<lparr>file_name := ''notes.txt'', file_type := ''text/plain''\<rparr>"

definition sample_json :: PdfParseResult where
  "sample_json =
     \<lparr>metadata = \<lparr>title = ''Statement'', author = ''Bank'', summary = ''May'',
                   language = ''en'', topic = ''finance''\<rparr>,
      pages = [\<lparr>pageNumber = 1, pageRawText = ''Hello World'', structuredElements = []\<rparr>],
      transactions = Some [],
      standardRawText = None,
      tokenUsage = None\<rparr>"

definition sample_response :: response where
  "sample_response = \<lparr>resp_text = Some ''{}'', usageMetadata = None\<rparr>"

definition sample_service :: remote_service where
  "sample_service =
     \<lparr>generateContent = (\<lambda>part. Inr sample_response),
      JSON_parse = (\<lambda>s. Inr sample_json)\<rparr>"

definition syntax_error :: js_error where
  "syntax_error = JsError (Some ''Unexpected end of JSON input'')"

definition sample_bad_json_service :: remote_service where
  "sample_bad_json_service =
     \<lparr>generateContent = (\<lambda>part. Inr sample_response),
      JSON_parse = (\<lambda>s. Inl syntax_error)\<rparr>"

definition sample_page :: pdf_page where
  "sample_page = \<lparr>getTextContent = Inr \<lparr>items = [\<lparr>str = ''Hello''\<rparr>, \<lparr>str = ''World''\<rparr>]\<rparr>\<rparr>"

definition sample_pdf :: pdf_document where
  "sample_pdf = \<lparr>numPages = 2, getPage = (\<lambda>k. Inr sample_page)\<rparr>"

definition sample_lib :: pdfjsLib where
  "sample_lib = \<lparr>getDocument = (\<lambda>buf. Inr sample_pdf)\<rparr>"

definition broken_page :: pdf_page where
  "broken_page = \<lparr>getTextContent = Inl (JsError (Some ''bad stream''))\<rparr>"

definition sample_broken_pdf :: pdf_document where
  "sample_broken_pdf =
     \<lparr>numPages = 2, getPage = (\<lambda>k. if k = 2 then Inr broken_page else Inr sample_page)\<rparr>"

definition sample_broken_lib :: pdfjsLib where
  "sample_broken_lib = \<lparr>getDocument = (\<lambda>buf. Inr sample_broken_pdf)\<rparr>"

definition sample_tx :: Transaction where
  "sample_tx =
     \<lparr>post_date = ''2026-01-02'', trans_date = ''2026-01-02'',
      description = ''ADJUSTMENT'', amount = 0, currency = ''LKR''\<rparr>"

subsection \<open>Two-decimal strings\<close>

definition is_digit :: "char \<Rightarrow> bool" where
  "is_digit c = (c \<in> set ''0123456789'')"

text \<open>Digits, a point, two digits.\<close>

definition two_decimals :: "string \<Rightarrow> bool" where
  "two_decimals s =
     (let k = length s
      in 4 \<le> k \<and> s ! (k - 3) = CHR ''.''
         \<and> list_all is_digit (take (k - 3) s) \<and> list_all is_digit (drop (k - 2) s))"

text \<open>The string of the number \<open>10^21\<close>, the only one the sample below converts.\<close>

definition numberToString_1e21 :: "real \<Rightarrow> string" where
  "numberToString_1e21 x = ''1e+21''"

text \<open>The string of a non-negative integer below \<open>10^21\<close>: its decimal digits.\<close>

definition numberToString_integer :: "real \<Rightarrow> string" where
  "numberToString_integer x = string_of_nat (nat \<lfloor>x\<rfloor>)"

definition huge_tx :: Transaction where
  "huge_tx =
     \<lparr>post_date = ''2026-01-02'', trans_date = ''2026-01-02'',
      description = ''TRANSFER'', amount = 10 ^ 21, currency = ''LKR''\<rparr>"

section \<open>Helper lemmas\<close>

subsection \<open>Properties of the local branch\<close>

lemma array_join_concat:
  "array_join sep ts = (case ts of [] \<Rightarrow> [] | t # us \<Rightarrow> t @ concat (map (\<lambda>u. sep @ u) us))"
  by (induction sep ts rule: array_join.induct) simp_all

lemma array_join_spaced: "array_join '' '' ts = spaced ts"
  by (simp add: array_join_concat spaced_def)

lemma page_block_marked:
  "getPage pdf k = Inr page \<Longrightarrow> getTextContent page = Inr tc \<Longrightarrow>
   page_block k (page_text tc) = marked_page k (page_tokens pdf k)"
  by (simp add: page_block_def marked_page_def page_text_def page_tokens_def array_join_spaced)

lemma pages_loop_ok:
  "(\<And>k. i \<le> k \<Longrightarrow> k \<le> numPages pdf \<Longrightarrow> page_ok pdf k) \<Longrightarrow>
   pages_loop pdf i acc =
     Inr (acc @ concat (map (\<lambda>k. marked_page k (page_tokens pdf k)) [i..<Suc (numPages pdf)]))"
proof (induction pdf i acc rule: pages_loop.induct)
  case (1 pdf i fullText)
  show ?case
  proof (cases "i \<le> numPages pdf")
    case False
    then show ?thesis by (simp add: pages_loop.simps)
  next
    case True
    with "1.prems" have ok: "page_ok pdf i" by simp
    then obtain page tc where p: "getPage pdf i = Inr page" and t: "getTextContent page = Inr tc"
      by (auto simp: page_ok_def split: sum.splits)
    have rest: "\<And>k. i + 1 \<le> k \<Longrightarrow> k \<le> numPages pdf \<Longrightarrow> page_ok pdf k"
      using "1.prems" by simp
    have ih: "pages_loop pdf (i + 1) (fullText @ page_block i (page_text tc)) =
        Inr ((fullText @ page_block i (page_text tc)) @
             concat (map (\<lambda>k. marked_page k (page_tokens pdf k)) [i + 1..<Suc (numPages pdf)]))"
      using "1.IH"[OF True p t rest] by simp
    have up: "[i..<Suc (numPages pdf)] = i # [i + 1..<Suc (numPages pdf)]"
      using True by (simp add: upt_conv_Cons)
    show ?thesis
      using True p t ih up page_block_marked[OF p t]
      by (simp add: pages_loop.simps[of pdf i])
  qed
qed

lemma pages_loop_fail:
  "i \<le> k \<Longrightarrow> k \<le> numPages pdf \<Longrightarrow> \<not> page_ok pdf k \<Longrightarrow> \<exists>e. pages_loop pdf i acc = Inl e"
proof (induction pdf i acc rule: pages_loop.induct)
  case (1 pdf i fullText)
  from "1.prems" have le: "i \<le> numPages pdf" by simp
  show ?case
  proof (cases "getPage pdf i")
    case (Inl e)
    then show ?thesis using le by (simp add: pages_loop.simps[of pdf i])
  next
    case (Inr page)
    note p = this
    show ?thesis
    proof (cases "getTextContent page")
      case (Inl e)
      then show ?thesis using le p by (simp add: pages_loop.simps[of pdf i])
    next
      case (Inr tc)
      then have "page_ok pdf i" using p by (simp add: page_ok_def)
      with "1.prems" have "i \<noteq> k" by auto
      with "1.prems" have "i + 1 \<le> k" by simp
      from "1.IH"[OF le p Inr this "1.prems"(2,3)] show ?thesis
        using le p Inr by (simp add: pages_loop.simps[of pdf i])
    qed
  qed
qed

lemma parsePdfLocal_try_throws:
  "local_throws lib f \<Longrightarrow> \<exists>e. parsePdfLocal_try lib f = Inl e"
proof (cases "arrayBuffer f")
  case (Inl e)
  then show ?thesis by (simp add: parsePdfLocal_try_def)
next
  case (Inr buf)
  note b = this
  assume th: "local_throws lib f"
  show ?thesis
  proof (cases "getDocument lib buf")
    case (Inl e)
    then show ?thesis using b by (simp add: parsePdfLocal_try_def)
  next
    case (Inr pdf)
    with th b obtain k where "1 \<le> k" "k \<le> numPages pdf" "\<not> page_ok pdf k"
      by (auto simp: local_throws_def)
    from pages_loop_fail[OF this, of "[]"] show ?thesis
      using b Inr by (simp add: parsePdfLocal_try_def)
  qed
qed

lemma parsePdfLocal_try_ok:
  assumes "arrayBuffer f = Inr buf" and "getDocument lib buf = Inr pdf"
    and "\<And>k. 1 \<le> k \<Longrightarrow> k \<le> numPages pdf \<Longrightarrow> page_ok pdf k"
  shows "parsePdfLocal_try lib f = Inr (local_text_spec pdf)"
  using assms(1,2) pages_loop_ok[of 1 pdf "[]", OF assms(3)]
  by (simp add: parsePdfLocal_try_def local_text_spec_def)

subsection \<open>Properties of the remote branch and of the merge\<close>

lemma parsePdfWithGemini_rethrows: "parsePdfWithGemini svc f = parsePdfWithGemini_try svc f"
  by (simp add: parsePdfWithGemini_def split: sum.splits)

lemma handleFileSelected_success:
  "parsePdfWithGemini svc f = Inr aiResult \<Longrightarrow>
   handleFileSelected svc lib st f =
     st\<lparr>status := SUCCESS, errorMsg := None, app_file := Some f,
        result := Some (aiResult\<lparr>standardRawText := Some (parsePdfLocal lib f)\<rparr>)\<rparr>"
  by (simp add: handleFileSelected_def promise_all2_def)

lemma handleFileSelected_failure:
  "parsePdfWithGemini svc f = Inl e \<Longrightarrow>
   handleFileSelected svc lib st f =
     st\<lparr>status := ERROR, errorMsg := Some (error_text e), app_file := Some f, result := None\<rparr>"
  by (simp add: handleFileSelected_def promise_all2_def)

lemma sample_remote: "parsePdfWithGemini sample_service sample_file =
   Inr (sample_json\<lparr>tokenUsage := Some \<lparr>promptTokens = 0, responseTokens = 0, totalTokens = 0\<rparr>\<rparr>)"
  by (simp add: parsePdfWithGemini_def parsePdfWithGemini_try_def fileToGenerativePart_def
      sample_service_def sample_file_def sample_response_def text_missing_def
      token_usage_of_def usage_field_def or_zero_def)

lemma sample_broken_throws: "local_throws sample_broken_lib sample_file"
proof -
  have "(2::nat) \<in> {1..2}" by simp
  moreover have "\<not> page_ok sample_broken_pdf 2"
    by (simp add: page_ok_def sample_broken_pdf_def broken_page_def)
  ultimately show ?thesis
    by (auto simp: local_throws_def sample_file_def sample_broken_lib_def sample_broken_pdf_def)
qed

subsection \<open>Properties of the viewer\<close>

lemma toFixed2_zero: "toFixed2 numberToString 0 = ''0.00''"
  unfolding toFixed2_def Let_def
  by (simp add: string_of_nat.simps digit_char_def)

lemma hasTransactions_iff:
  "hasTransactions d \<longleftrightarrow> (\<exists>txs. transactions d = Some txs \<and> txs \<noteq> [])"
  by (auto simp: hasTransactions_def split: option.splits)

lemma click_tab_without_transactions:
  "\<not> hasTransactions d \<Longrightarrow> tab \<noteq> TabTransactions \<Longrightarrow> click_tab d tab b \<noteq> TabTransactions"
  by (auto simp: click_tab_def tab_buttons_def)

lemma foldl_click_tab_without_transactions:
  "\<not> hasTransactions d \<Longrightarrow> tab \<noteq> TabTransactions \<Longrightarrow>
   foldl (click_tab d) tab clicks \<noteq> TabTransactions"
proof (induction clicks arbitrary: tab)
  case Nil
  then show ?case by simp
next
  case (Cons b clicks)
  from Cons.prems have "click_tab d tab b \<noteq> TabTransactions"
    by (rule click_tab_without_transactions)
  with Cons.IH[OF Cons.prems(1)] show ?case by simp
qed

lemma escape_quotes_concat:
  "escape_quotes s = concat (map (\<lambda>c. if c = dquote then [dquote, dquote] else [c]) s)"
  by (induction s) simp_all

lemma scan_quoted_plain:
  "c \<noteq> dquote \<Longrightarrow> xs \<noteq> [] \<Longrightarrow>
   scan_quoted (c # xs) = map_option (apfst ((#) c)) (scan_quoted xs)"
  by (cases xs) simp_all

lemma scan_quoted_escaped:
  "rest = [] \<or> hd rest \<noteq> dquote \<Longrightarrow>
   scan_quoted (escape_quotes s @ dquote # rest) = Some (s, rest)"
proof (induction s)
  case Nil
  then show ?case by (cases rest) auto
next
  case (Cons c s)
  show ?case
  proof (cases "c = dquote")
    case True
    with Cons show ?thesis by simp
  next
    case False
    have "escape_quotes s @ dquote # rest \<noteq> []" by simp
    with False Cons show ?thesis
      by (simp add: scan_quoted_plain)
  qed
qed

lemma csv_headers_line:
  "array_join '','' csv_headers = ''Post Date,Trans Date,Description,Amount,Currency''"
  by (simp add: csv_headers_def)

subsection \<open>Properties of the two-decimal rendering\<close>

lemma string_of_nat_small: "n < 10 \<Longrightarrow> string_of_nat n = [digit_char n]"
  by (subst string_of_nat.simps) simp

lemma string_of_nat_step:
  "10 \<le> n \<Longrightarrow> string_of_nat n = string_of_nat (n div 10) @ [digit_char (n mod 10)]"
  by (subst string_of_nat.simps) simp

lemma is_digit_digit_char: "d < 10 \<Longrightarrow> is_digit (digit_char d)"
  unfolding is_digit_def digit_char_def
  by (rule nth_mem) simp

lemma string_of_nat_digits: "list_all is_digit (string_of_nat n) \<and> string_of_nat n \<noteq> []"
proof (induction n rule: string_of_nat.induct)
  case (1 n)
  show ?case
  proof (cases "n < 10")
    case True
    then show ?thesis by (simp add: string_of_nat_small is_digit_digit_char)
  next
    case False
    with 1 show ?thesis by (simp add: string_of_nat_step is_digit_digit_char)
  qed
qed

lemma string_of_nat_hundreds:
  assumes "100 \<le> n"
  shows "string_of_nat n =
           string_of_nat (n div 100) @ [digit_char (n div 10 mod 10), digit_char (n mod 10)]"
proof -
  from assms have a: "10 \<le> n" and b: "10 \<le> n div 10" by simp_all
  have c: "n div 10 div 10 = n div 100" by (simp add: div_mult2_eq)
  show ?thesis
    by (simp add: string_of_nat_step[OF a] string_of_nat_step[OF b] c)
qed

text \<open>The digits of \<open>n\<close> with a point before the last two, as \<open>toFixed\<close> lays them out.\<close>

lemma fixed_layout:
  fixes n :: nat
  defines "m \<equiv> string_of_nat n"
  defines "m' \<equiv> (if length m \<le> 2 then replicate (3 - length m) CHR ''0'' @ m else m)"
  shows "take (length m' - 2) m' @ ''.'' @ drop (length m' - 2) m' =
         string_of_nat (n div 100) @ ''.'' @ [digit_char (n div 10 mod 10), digit_char (n mod 10)]"
proof -
  consider "n < 10" | "10 \<le> n" "n < 100" | "100 \<le> n" by linarith
  then show ?thesis
  proof cases
    case 1
    then have "m = [digit_char n]" by (simp add: m_def string_of_nat_small)
    moreover have "string_of_nat (n div 100) = ''0''" using 1
      by (simp add: string_of_nat_small digit_char_def)
    moreover have "digit_char (n div 10 mod 10) = CHR ''0''" using 1
      by (simp add: digit_char_def)
    ultimately show ?thesis using 1 by (simp add: m'_def numeral_2_eq_2)
  next
    case 2
    then have "n div 10 < 10" by simp
    with 2 have "m = [digit_char (n div 10), digit_char (n mod 10)]"
      by (simp add: m_def string_of_nat_step string_of_nat_small)
    moreover have "string_of_nat (n div 100) = ''0''" using 2
      by (simp add: string_of_nat_small digit_char_def)
    moreover have "n div 10 mod 10 = n div 10" using 2 by simp
    ultimately show ?thesis by (simp add: m'_def)
  next
    case 3
    then have h: "m = string_of_nat (n div 100) @ [digit_char (n div 10 mod 10), digit_char (n mod 10)]"
      by (simp add: m_def string_of_nat_hundreds)
    have ne: "string_of_nat (n div 100) \<noteq> []" by (simp add: string_of_nat_digits)
    then have "0 < length (string_of_nat (n div 100))" by simp
    then have "\<not> length m \<le> 2" by (simp add: h)
    then have "m' = m" by (simp add: m'_def)
    then show ?thesis by (simp add: h)
  qed
qed

lemma toFixed2_layout:
  assumes "0 \<le> x" and "x < 10 ^ 21"
  shows "toFixed2 numberToString x =
           string_of_nat (nat \<lfloor>x * 100 + 1 / 2\<rfloor> div 100) @ ''.''
           @ [digit_char (nat \<lfloor>x * 100 + 1 / 2\<rfloor> div 10 mod 10),
              digit_char (nat \<lfloor>x * 100 + 1 / 2\<rfloor> mod 10)]"
proof -
  from assms have "\<not> x < 0" and "\<not> 10 ^ 21 \<le> x" by simp_all
  then have "toFixed2 numberToString x =
      (let m = string_of_nat (nat \<lfloor>x * 100 + 1 / 2\<rfloor>);
           m' = (if length m \<le> 2 then replicate (3 - length m) CHR ''0'' @ m else m)
       in take (length m' - 2) m' @ ''.'' @ drop (length m' - 2) m')"
    unfolding toFixed2_def Let_def by simp
  then show ?thesis
    unfolding Let_def by (simp only: fixed_layout)
qed

lemma two_decimals_layout:
  "two_decimals (string_of_nat k @ ''.'' @ [digit_char (a mod 10), digit_char (b mod 10)])"
proof -
  let ?A = "string_of_nat k"
  have d: "list_all is_digit ?A" and ne: "?A \<noteq> []"
    by (simp_all add: string_of_nat_digits)
  from ne have l: "1 \<le> length ?A" by (cases ?A) simp_all
  have len: "length (?A @ ''.'' @ [digit_char (a mod 10), digit_char (b mod 10)]) = length ?A + 3"
    by simp
  show ?thesis
    unfolding two_decimals_def Let_def len
    using d l by (simp add: nth_append is_digit_digit_char)
qed

lemma round_half_up_close:
  fixes y :: real
  assumes "0 \<le> y"
  shows "\<bar>real (nat \<lfloor>y + 1 / 2\<rfloor>) - y\<bar> \<le> 1 / 2"
proof -
  have "0 \<le> \<lfloor>y + 1 / 2\<rfloor>" using assms by simp
  then have "real (nat \<lfloor>y + 1 / 2\<rfloor>) = of_int \<lfloor>y + 1 / 2\<rfloor>" by simp
  moreover have "of_int \<lfloor>y + 1 / 2\<rfloor> \<le> y + 1 / 2" by (rule of_int_floor_le)
  moreover have "y + 1 / 2 < of_int \<lfloor>y + 1 / 2\<rfloor> + 1"
    using floor_correct[of "y + 1 / 2"] by simp
  ultimately show ?thesis by linarith
qed

lemma toFixed2_1500: "toFixed2 numberToString 1500 = ''1500.00''"
  unfolding toFixed2_def Let_def
  by (simp add: string_of_nat.simps digit_char_def)

lemma toFixed2_200: "toFixed2 numberToString 200 = ''200.00''"
  unfolding toFixed2_def Let_def
  by (simp add: string_of_nat.simps digit_char_def)

lemma toFixed2_1e21: "toFixed2 numberToString (10 ^ 21) = numberToString (10 ^ 21)"
  unfolding toFixed2_def Let_def
  by simp

section \<open>The claims\<close>

text \<open>
  Claim C1. When the remote branch returns a result and the local branch returns its
  string, the stored result is the remote result with \<open>standardRawText\<close> set to the
  local string: metadata, pages, transactions and token usage are those of the remote
  result.
\<close>

theorem merge_keeps_remote_fields:
  assumes "parsePdfWithGemini svc f = Inr aiResult"
  shows "\<exists>merged. result (handleFileSelected svc lib st f) = Some merged
           \<and> metadata merged = metadata aiResult
           \<and> pages merged = pages aiResult
           \<and> transactions merged = transactions aiResult
           \<and> tokenUsage merged = tokenUsage aiResult
           \<and> standardRawText merged = Some (parsePdfLocal lib f)
           \<and> merged = aiResult\<lparr>standardRawText := Some (parsePdfLocal lib f)\<rparr>"
  by (simp add: handleFileSelected_success[OF assms])

theorem merge_keeps_remote_fields_witness:
  "parsePdfWithGemini sample_service sample_file =
     Inr (sample_json\<lparr>tokenUsage := Some \<lparr>promptTokens = 0, responseTokens = 0, totalTokens = 0\<rparr>\<rparr>)
   \<and> (\<exists>merged. result (handleFileSelected sample_service sample_lib initial_app sample_file) = Some merged
          \<and> metadata merged = metadata sample_json
          \<and> pages merged = pages sample_json
          \<and> transactions merged = Some []
          \<and> tokenUsage merged = Some \<lparr>promptTokens = 0, responseTokens = 0, totalTokens = 0\<rparr>
          \<and> standardRawText merged = Some (parsePdfLocal sample_lib sample_file))"
proof -
  have h: "parsePdfWithGemini sample_service sample_file =
     Inr (sample_json\<lparr>tokenUsage := Some \<lparr>promptTokens = 0, responseTokens = 0, totalTokens = 0\<rparr>\<rparr>)"
    by (rule sample_remote)
  from merge_keeps_remote_fields[OF h, of sample_lib initial_app] h show ?thesis
    by (auto simp: sample_json_def)
qed

text \<open>
  Claim C2. When any call of the local branch throws (reading the file, loading the
  document, fetching a page or its text), \<open>parsePdfLocal\<close> returns the sentinel
  string; when the remote branch succeeds the status is still \<open>SUCCESS\<close> and the
  stored result carries the sentinel as \<open>standardRawText\<close>.
\<close>

theorem local_failure_gives_sentinel:
  assumes "local_throws lib f"
  shows "parsePdfLocal lib f = ''Error: Could not extract raw text from PDF for comparison.''
         \<and> (parsePdfWithGemini svc f = Inr aiResult \<longrightarrow>
              status (handleFileSelected svc lib st f) = SUCCESS
              \<and> result (handleFileSelected svc lib st f) =
                  Some (aiResult\<lparr>standardRawText :=
                    Some ''Error: Could not extract raw text from PDF for comparison.''\<rparr>))"
proof -
  from parsePdfLocal_try_throws[OF assms] obtain e where "parsePdfLocal_try lib f = Inl e" ..
  then have s: "parsePdfLocal lib f = local_sentinel"
    by (simp add: parsePdfLocal_def)
  show ?thesis
    using s by (auto simp: handleFileSelected_success local_sentinel_def)
qed

theorem local_failure_gives_sentinel_witness:
  "local_throws sample_broken_lib sample_file
   \<and> parsePdfLocal sample_broken_lib sample_file =
       ''Error: Could not extract raw text from PDF for comparison.''
   \<and> status (handleFileSelected sample_service sample_broken_lib initial_app sample_file) = SUCCESS
   \<and> map_option standardRawText
        (result (handleFileSelected sample_service sample_broken_lib initial_app sample_file)) =
       Some (Some ''Error: Could not extract raw text from PDF for comparison.'')"
proof -
  have h: "local_throws sample_broken_lib sample_file"
    by (rule sample_broken_throws)
  from local_failure_gives_sentinel[OF h, of sample_service _ initial_app] sample_remote h
  show ?thesis by simp
qed

text \<open>
  Claim C3. When the remote branch fails (the reader or the call throws, the response
  has no text, or the text does not parse), \<open>parsePdfWithGemini\<close> throws that very
  error, the status becomes \<open>ERROR\<close>, the stored result is null and the error's
  message (or the default one) is stored.
\<close>

theorem remote_failure_reaches_error:
  assumes "fileToGenerativePart f = Inl e
           \<or> (\<exists>part. fileToGenerativePart f = Inr part \<and>
                (generateContent svc part = Inl e
                 \<or> (\<exists>resp. generateContent svc part = Inr resp \<and>
                      ((resp_text resp = None \<or> resp_text resp = Some [])
                          \<and> e = JsError (Some ''No response text received from Gemini.'')
                       \<or> (\<exists>s. resp_text resp = Some s \<and> s \<noteq> [] \<and> JSON_parse svc s = Inl e)))))"
  shows "parsePdfWithGemini svc f = Inl e
         \<and> status (handleFileSelected svc lib st f) = ERROR
         \<and> result (handleFileSelected svc lib st f) = None
         \<and> errorMsg (handleFileSelected svc lib st f) =
             Some (case message e of
                     None \<Rightarrow> ''An unknown error occurred while parsing the PDF.''
                   | Some m \<Rightarrow> if m = [] then ''An unknown error occurred while parsing the PDF.'' else m)"
proof -
  have r: "parsePdfWithGemini svc f = Inl e"
    using assms
    by (auto simp: parsePdfWithGemini_rethrows parsePdfWithGemini_try_def text_missing_def
        no_text_error_def)
  show ?thesis
    using r by (simp add: handleFileSelected_failure[OF r] error_text_def unknown_error_msg_def
        split: option.splits)
qed

theorem remote_failure_reaches_error_witness:
  "(\<exists>part. fileToGenerativePart sample_file = Inr part \<and>
      (\<exists>resp. generateContent sample_bad_json_service part = Inr resp \<and>
         (\<exists>s. resp_text resp = Some s \<and> s \<noteq> [] \<and> JSON_parse sample_bad_json_service s = Inl syntax_error)))
   \<and> parsePdfWithGemini sample_bad_json_service sample_file = Inl syntax_error
   \<and> status (handleFileSelected sample_bad_json_service sample_lib initial_app sample_file) = ERROR
   \<and> result (handleFileSelected sample_bad_json_service sample_lib initial_app sample_file) = None
   \<and> errorMsg (handleFileSelected sample_bad_json_service sample_lib initial_app sample_file) =
        Some ''Unexpected end of JSON input''"
proof -
  have h: "\<exists>part. fileToGenerativePart sample_file = Inr part \<and>
      (\<exists>resp. generateContent sample_bad_json_service part = Inr resp \<and>
         (\<exists>s. resp_text resp = Some s \<and> s \<noteq> [] \<and> JSON_parse sample_bad_json_service s = Inl syntax_error))"
    by (simp add: fileToGenerativePart_def sample_file_def sample_bad_json_service_def
        sample_response_def)
  then have h': "fileToGenerativePart sample_file = Inl syntax_error
           \<or> (\<exists>part. fileToGenerativePart sample_file = Inr part \<and>
                (generateContent sample_bad_json_service part = Inl syntax_error
                 \<or> (\<exists>resp. generateContent sample_bad_json_service part = Inr resp \<and>
                      ((resp_text resp = None \<or> resp_text resp = Some [])
                          \<and> syntax_error = JsError (Some ''No response text received from Gemini.'')
                       \<or> (\<exists>s. resp_text resp = Some s \<and> s \<noteq> [] \<and> JSON_parse sample_bad_json_service s = Inl syntax_error)))))"
    by blast
  from remote_failure_reaches_error[OF h', of sample_lib initial_app] h show ?thesis
    by (simp add: syntax_error_def)
qed

text \<open>
  Claim C4. A file whose declared type is not exactly \<open>application/pdf\<close> is never
  passed to \<open>onFileSelected\<close>, by a drop or by a selection; when it is the file
  dropped or selected, the handler shows the alert (or does nothing while loading) and
  the application state, hence both extraction branches, is left untouched.
\<close>

theorem non_pdf_file_is_rejected:
  assumes "file_type f \<noteq> ''application/pdf''"
  shows "snd (handleDrop isLoading files) \<noteq> OnFileSelected f
         \<and> handleFileChange isLoading files \<noteq> OnFileSelected f
         \<and> snd (handleDrop isLoading (Some (f # others))) =
             (if isLoading then NoEffect else Alert ''Please upload a PDF file.'')
         \<and> handleFileChange isLoading (Some (f # others)) =
             (if isLoading then NoEffect else Alert ''Please upload a PDF file.'')
         \<and> app_drop svc lib st (Some (f # others)) = st
         \<and> app_file_change svc lib st (Some (f # others)) = st"
  using assms
  by (auto simp: handleDrop_def handleFileChange_def app_drop_def app_file_change_def
      app_effect_def split: option.splits list.splits)

theorem non_pdf_file_is_rejected_witness:
  "file_type sample_text_file \<noteq> ''application/pdf''
   \<and> snd (handleDrop False (Some [sample_text_file])) = Alert ''Please upload a PDF file.''
   \<and> handleFileChange False (Some [sample_text_file]) = Alert ''Please upload a PDF file.''
   \<and> app_drop sample_service sample_lib initial_app (Some [sample_text_file]) = initial_app
   \<and> app_file_change sample_service sample_lib initial_app (Some [sample_text_file]) = initial_app"
proof -
  have h: "file_type sample_text_file \<noteq> ''application/pdf''"
    by (simp add: sample_text_file_def)
  from non_pdf_file_is_rejected[OF h, of False _ "[]" sample_service sample_lib initial_app] h
  show ?thesis by simp
qed

text \<open>
  Claim C5. When the file is read, the document loads and every page from 1 to
  \<open>numPages\<close> can be read, the output of the local branch is the concatenation, for
  the pages 1 to \<open>numPages\<close> in order, of the marker line \<open>--- PAGE i ---\<close>, an empty
  line, the page's items joined by one space, and an empty line.
\<close>

theorem local_output_is_marked_pages:
  assumes "arrayBuffer f = Inr buf" and "getDocument lib buf = Inr pdf"
    and "\<forall>k \<in> {1..numPages pdf}. page_ok pdf k"
  shows "parsePdfLocal lib f =
           concat (map (\<lambda>i. ''--- PAGE '' @ string_of_nat i @ '' ---'' @ [newline] @ [newline]
                             @ spaced (page_tokens pdf i) @ [newline] @ [newline])
                       [1..<Suc (numPages pdf)])"
proof -
  have "parsePdfLocal_try lib f = Inr (local_text_spec pdf)"
    using assms by (intro parsePdfLocal_try_ok) auto
  then show ?thesis
    by (simp add: parsePdfLocal_def local_text_spec_def marked_page_def)
qed

theorem local_output_is_marked_pages_witness:
  "arrayBuffer sample_file = Inr [37, 80, 68, 70]
   \<and> getDocument sample_lib [37, 80, 68, 70] = Inr sample_pdf
   \<and> numPages sample_pdf = 2 \<and> page_ok sample_pdf 1 \<and> page_ok sample_pdf 2
   \<and> parsePdfLocal sample_lib sample_file =
       ''--- PAGE 1 ---'' @ [newline, newline] @ ''Hello World'' @ [newline, newline] @
       ''--- PAGE 2 ---'' @ [newline, newline] @ ''Hello World'' @ [newline, newline]"
proof -
  have a: "arrayBuffer sample_file = Inr [37, 80, 68, 70]"
    by (simp add: sample_file_def)
  have b: "getDocument sample_lib [37, 80, 68, 70] = Inr sample_pdf"
    by (simp add: sample_lib_def)
  have c: "\<forall>k \<in> {1..numPages sample_pdf}. page_ok sample_pdf k"
    by (simp add: page_ok_def sample_pdf_def sample_page_def)
  have up: "[1..<Suc (numPages sample_pdf)] = [1, 2]"
    by (simp add: sample_pdf_def upt_conv_Cons)
  have tok: "\<And>k. page_tokens sample_pdf k = [''Hello'', ''World'']"
    by (simp add: page_tokens_def sample_pdf_def sample_page_def)
  have d1: "string_of_nat (Suc 0) = ''1''" and d2: "string_of_nat 2 = ''2''"
    by (simp_all add: string_of_nat.simps digit_char_def)
  have n: "numPages sample_pdf = 2" and p: "page_ok sample_pdf 1" "page_ok sample_pdf 2"
    by (simp_all add: page_ok_def sample_pdf_def sample_page_def)
  from local_output_is_marked_pages[OF a b c, unfolded up] a b n p show ?thesis
    by (simp add: tok spaced_def d1 d2)
qed

text \<open>
  Claim C6. On the transactions tab \<open>handleDownload\<close> produces a CSV file whose
  content is the header line followed by one line per transaction, in order, joined by
  newlines; a line is the five fields joined by commas, the description between double
  quotes with each double quote doubled; reading that field back yields the description.
\<close>

theorem csv_export_shape_and_roundtrip:
  "dl_content (handleDownload stringify numberToString (d\<lparr>transactions := Some txs\<rparr>)
       TabTransactions) =
     array_join [newline]
       (''Post Date,Trans Date,Description,Amount,Currency'' # map (csv_line numberToString) txs)
   \<and> dl_mimeType (handleDownload stringify numberToString (d\<lparr>transactions := Some txs\<rparr>)
       TabTransactions) = ''text/csv''
   \<and> dl_extension (handleDownload stringify numberToString (d\<lparr>transactions := Some txs\<rparr>)
       TabTransactions) = ''csv''
   \<and> csv_content numberToString (d\<lparr>transactions := Some txs\<rparr>) =
     array_join [newline]
       (''Post Date,Trans Date,Description,Amount,Currency'' # map (csv_line numberToString) txs)
   \<and> csv_line numberToString t =
       post_date t @ '','' @ trans_date t @ '',''
       @ [dquote] @ concat (map (\<lambda>c. if c = dquote then [dquote, dquote] else [c]) (description t))
       @ [dquote] @ '','' @ numberToString (amount t) @ '','' @ currency t
   \<and> parse_field (csv_row numberToString t ! 2) = Some (description t)
   \<and> scan_quoted (escape_quotes (description t) @ [dquote] @ '','' @ rest)
       = Some (description t, '','' @ rest)"
proof -
  have a: "csv_content numberToString (d\<lparr>transactions := Some txs\<rparr>) =
     array_join [newline]
       (''Post Date,Trans Date,Description,Amount,Currency'' # map (csv_line numberToString) txs)"
  proof -
    have l: "csv_line numberToString = (\<lambda>x. array_join '','' (csv_row numberToString x))"
      by (simp add: fun_eq_iff csv_line_def)
    show ?thesis
      by (simp add: csv_content_def csv_headers_line l comp_def)
  qed
  have b: "csv_line numberToString t =
       post_date t @ '','' @ trans_date t @ '',''
       @ [dquote] @ concat (map (\<lambda>c. if c = dquote then [dquote, dquote] else [c]) (description t))
       @ [dquote] @ '','' @ numberToString (amount t) @ '','' @ currency t"
    by (simp add: csv_line_def csv_row_def escape_quotes_concat)
  have c: "parse_field (csv_row numberToString t ! 2) = Some (description t)"
    using scan_quoted_escaped[of "[]" "description t"]
    by (simp add: csv_row_def parse_field_def)
  have e: "scan_quoted (escape_quotes (description t) @ [dquote] @ '','' @ rest)
       = Some (description t, '','' @ rest)"
    using scan_quoted_escaped[of "'','' @ rest" "description t"]
    by (simp add: dquote_def)
  have dl: "handleDownload stringify numberToString (d\<lparr>transactions := Some txs\<rparr>)
       TabTransactions =
     \<lparr>dl_content = csv_content numberToString (d\<lparr>transactions := Some txs\<rparr>),
      dl_mimeType = ''text/csv'', dl_extension = ''csv''\<rparr>"
    by (simp add: handleDownload_def)
  have f: "dl_content (handleDownload stringify numberToString (d\<lparr>transactions := Some txs\<rparr>)
       TabTransactions) =
     array_join [newline]
       (''Post Date,Trans Date,Description,Amount,Currency'' # map (csv_line numberToString) txs)"
    unfolding dl using a by simp
  have g: "dl_mimeType (handleDownload stringify numberToString (d\<lparr>transactions := Some txs\<rparr>)
       TabTransactions) = ''text/csv''"
    unfolding dl by simp
  have h: "dl_extension (handleDownload stringify numberToString (d\<lparr>transactions := Some txs\<rparr>)
       TabTransactions) = ''csv''"
    unfolding dl by simp
  from f g h a b c e show ?thesis by blast
qed

theorem csv_export_shape_and_roundtrip_witness:
  "dl_content (handleDownload (\<lambda>d. []) numberToString_integer
       (sample_json\<lparr>transactions :=
          Some [sample_tx\<lparr>description := ''6'' @ [dquote] @ '' pipe''\<rparr>]\<rparr>)
       TabTransactions) =
     ''Post Date,Trans Date,Description,Amount,Currency'' @ [newline]
     @ ''2026-01-02,2026-01-02,'' @ [dquote] @ ''6'' @ [dquote, dquote] @ '' pipe'' @ [dquote]
     @ '',0,LKR''
   \<and> dl_extension (handleDownload (\<lambda>d. []) numberToString_integer
       (sample_json\<lparr>transactions :=
          Some [sample_tx\<lparr>description := ''6'' @ [dquote] @ '' pipe''\<rparr>]\<rparr>)
       TabTransactions) = ''csv''
   \<and> parse_field ([dquote] @ ''6'' @ [dquote, dquote] @ '' pipe'' @ [dquote])
       = Some (''6'' @ [dquote] @ '' pipe'')"
proof -
  let ?t = "sample_tx\<lparr>description := ''6'' @ [dquote] @ '' pipe''\<rparr>"
  have q: "CHR ''6'' \<noteq> dquote" "CHR '' '' \<noteq> dquote" "CHR ''p'' \<noteq> dquote"
    "CHR ''i'' \<noteq> dquote" "CHR ''e'' \<noteq> dquote"
    by (simp_all add: dquote_def)
  have z: "numberToString_integer 0 = ''0''"
    by (simp add: numberToString_integer_def string_of_nat_small digit_char_def)
  from csv_export_shape_and_roundtrip[where numberToString = numberToString_integer
      and stringify = "\<lambda>d. []"
      and d = sample_json and txs = "[?t]" and t = ?t and rest = "[]"]
  show ?thesis
    by (simp add: q sample_tx_def z csv_row_def)
qed

text \<open>
  Claim C7. The result of the remote branch carries a token usage whose counters are
  those of the response's usage metadata, each one 0 when the metadata or the counter
  is absent.
\<close>

theorem absent_usage_counters_default_to_zero:
  assumes "fileToGenerativePart f = Inr part" and "generateContent svc part = Inr resp"
    and "parsePdfWithGemini svc f = Inr r"
  shows "\<exists>tu. tokenUsage r = Some tu
          \<and> (usageMetadata resp = None \<longrightarrow>
                tu = \<lparr>promptTokens = 0, responseTokens = 0, totalTokens = 0\<rparr>)
          \<and> (\<forall>u. usageMetadata resp = Some u \<longrightarrow>
                promptTokens tu = (case promptTokenCount u of None \<Rightarrow> 0 | Some n \<Rightarrow> n)
                \<and> responseTokens tu = (case candidatesTokenCount u of None \<Rightarrow> 0 | Some n \<Rightarrow> n)
                \<and> totalTokens tu = (case totalTokenCount u of None \<Rightarrow> 0 | Some n \<Rightarrow> n))"
proof -
  have "tokenUsage r = Some (token_usage_of resp)"
    using assms
    by (auto simp: parsePdfWithGemini_rethrows parsePdfWithGemini_try_def
        split: if_splits sum.splits)
  then show ?thesis
    by (auto simp: token_usage_of_def usage_field_def or_zero_def split: option.splits)
qed

theorem absent_usage_counters_default_to_zero_witness:
  "fileToGenerativePart sample_file = Inr \<lparr>data = Some ''JVBERg=='', mimeType = ''application/pdf''\<rparr>
   \<and> generateContent sample_service \<lparr>data = Some ''JVBERg=='', mimeType = ''application/pdf''\<rparr>
        = Inr sample_response
   \<and> usageMetadata sample_response = None
   \<and> (\<exists>r. parsePdfWithGemini sample_service sample_file = Inr r
         \<and> tokenUsage r = Some \<lparr>promptTokens = 0, responseTokens = 0, totalTokens = 0\<rparr>)"
proof -
  have a: "fileToGenerativePart sample_file =
      Inr \<lparr>data = Some ''JVBERg=='', mimeType = ''application/pdf''\<rparr>"
    by (simp add: fileToGenerativePart_def sample_file_def array_get_def)
  have b: "generateContent sample_service \<lparr>data = Some ''JVBERg=='', mimeType = ''application/pdf''\<rparr>
        = Inr sample_response"
    by (simp add: sample_service_def)
  have n: "usageMetadata sample_response = None"
    by (simp add: sample_response_def)
  from absent_usage_counters_default_to_zero[OF a b sample_remote] a b n sample_remote
  show ?thesis by auto
qed

text \<open>
  Claim C8, amended. For the two transactions with amounts 1500.00 and -200.00 in LKR
  the table shows no sign and the magnitude \<open>1500.00\<close> for the first, the sign
  \<open>+\<close> and the magnitude \<open>200.00\<close> for the second. For every amount of absolute
  value below \<open>10^21\<close> the magnitude is the absolute value rounded to the nearest
  hundredth, printed as digits, a point and two digits; from \<open>10^21\<close> on it is the
  string of the absolute value itself.
\<close>

theorem two_transaction_rendering:
  "map_option (map row_amount)
     (transactions_table numberToString
        (d\<lparr>transactions :=
             Some [tx1\<lparr>amount := 1500, currency := ''LKR''\<rparr>,
                   tx2\<lparr>amount := - 200, currency := ''LKR''\<rparr>]\<rparr>)
        TabTransactions) =
     Some [\<lparr>cell_className =
              ''px-4 py-3 text-right font-mono font-medium whitespace-nowrap text-slate-200'',
            cell_sign = '''', cell_magnitude = ''1500.00'', cell_currency = ''LKR''\<rparr>,
           \<lparr>cell_className =
              ''px-4 py-3 text-right font-mono font-medium whitespace-nowrap text-emerald-400'',
            cell_sign = ''+'', cell_magnitude = ''200.00'', cell_currency = ''LKR''\<rparr>]
   \<and> (\<bar>amount t\<bar> < 10 ^ 21 \<longrightarrow>
        cell_magnitude (render_amount numberToString t) =
          string_of_nat (nat \<lfloor>\<bar>amount t\<bar> * 100 + 1 / 2\<rfloor> div 100) @ ''.''
          @ [digit_char (nat \<lfloor>\<bar>amount t\<bar> * 100 + 1 / 2\<rfloor> div 10 mod 10),
             digit_char (nat \<lfloor>\<bar>amount t\<bar> * 100 + 1 / 2\<rfloor> mod 10)]
        \<and> two_decimals (cell_magnitude (render_amount numberToString t))
        \<and> \<bar>real (nat \<lfloor>\<bar>amount t\<bar> * 100 + 1 / 2\<rfloor>) / 100 - \<bar>amount t\<bar>\<bar> \<le> 1 / 200)
   \<and> (10 ^ 21 \<le> \<bar>amount t\<bar> \<longrightarrow>
        cell_magnitude (render_amount numberToString t) = numberToString \<bar>amount t\<bar>)"
proof -
  have rows: "map_option (map row_amount)
     (transactions_table numberToString
        (d\<lparr>transactions :=
             Some [tx1\<lparr>amount := 1500, currency := ''LKR''\<rparr>,
                   tx2\<lparr>amount := - 200, currency := ''LKR''\<rparr>]\<rparr>)
        TabTransactions) =
     Some [\<lparr>cell_className =
              ''px-4 py-3 text-right font-mono font-medium whitespace-nowrap text-slate-200'',
            cell_sign = '''', cell_magnitude = ''1500.00'', cell_currency = ''LKR''\<rparr>,
           \<lparr>cell_className =
              ''px-4 py-3 text-right font-mono font-medium whitespace-nowrap text-emerald-400'',
            cell_sign = ''+'', cell_magnitude = ''200.00'', cell_currency = ''LKR''\<rparr>]"
    by (simp add: transactions_table_def render_row_def render_amount_def
        toFixed2_1500 toFixed2_200)
  have general: "cell_magnitude (render_amount numberToString t) =
          string_of_nat (nat \<lfloor>\<bar>amount t\<bar> * 100 + 1 / 2\<rfloor> div 100) @ ''.''
          @ [digit_char (nat \<lfloor>\<bar>amount t\<bar> * 100 + 1 / 2\<rfloor> div 10 mod 10),
             digit_char (nat \<lfloor>\<bar>amount t\<bar> * 100 + 1 / 2\<rfloor> mod 10)]
        \<and> two_decimals (cell_magnitude (render_amount numberToString t))
        \<and> \<bar>real (nat \<lfloor>\<bar>amount t\<bar> * 100 + 1 / 2\<rfloor>) / 100 - \<bar>amount t\<bar>\<bar> \<le> 1 / 200"
    if small: "\<bar>amount t\<bar> < 10 ^ 21"
  proof -
    let ?n = "nat \<lfloor>\<bar>amount t\<bar> * 100 + 1 / 2\<rfloor>"
    have nonneg: "0 \<le> \<bar>amount t\<bar>" by simp
    have layout: "cell_magnitude (render_amount numberToString t) =
        string_of_nat (?n div 100) @ ''.'' @ [digit_char (?n div 10 mod 10), digit_char (?n mod 10)]"
      using toFixed2_layout[OF nonneg small] by (simp add: render_amount_def)
    have shape: "two_decimals (cell_magnitude (render_amount numberToString t))"
      unfolding layout by (rule two_decimals_layout)
    have "0 \<le> \<bar>amount t\<bar> * 100" by simp
    from round_half_up_close[OF this]
    have "\<bar>real ?n - \<bar>amount t\<bar> * 100\<bar> \<le> 1 / 2" .
    then have close: "\<bar>real ?n / 100 - \<bar>amount t\<bar>\<bar> \<le> 1 / 200"
      by (simp add: abs_le_iff field_simps)
    from layout shape close show ?thesis by simp
  qed
  have large: "cell_magnitude (render_amount numberToString t) = numberToString \<bar>amount t\<bar>"
    if big: "10 ^ 21 \<le> \<bar>amount t\<bar>"
  proof -
    have "\<not> \<bar>amount t\<bar> < 0" by simp
    with big show ?thesis
      unfolding render_amount_def toFixed2_def Let_def by simp
  qed
  from rows general large show ?thesis by blast
qed

theorem two_transaction_rendering_witness:
  "\<bar>amount (sample_tx\<lparr>amount := 1500\<rparr>)\<bar> < 10 ^ 21
   \<and> cell_magnitude (render_amount numberToString_1e21 (sample_tx\<lparr>amount := 1500\<rparr>)) = ''1500.00''
   \<and> two_decimals (cell_magnitude (render_amount numberToString_1e21 (sample_tx\<lparr>amount := 1500\<rparr>)))"
proof -
  have h: "\<bar>amount (sample_tx\<lparr>amount := 1500\<rparr>)\<bar> < 10 ^ 21"
    by simp
  have d: "string_of_nat 1500 = ''1500''"
    by (simp add: string_of_nat.simps digit_char_def)
  note r = two_transaction_rendering[where t = "sample_tx\<lparr>amount := 1500\<rparr>"
      and numberToString = numberToString_1e21 and d = sample_json
      and ?tx1.0 = sample_tx and ?tx2.0 = sample_tx, THEN conjunct2, THEN conjunct1,
      rule_format, OF h]
  from r have m: "cell_magnitude (render_amount numberToString_1e21 (sample_tx\<lparr>amount := 1500\<rparr>))
      = ''1500.00''"
    by (simp add: d digit_char_def)
  from r have s: "two_decimals
      (cell_magnitude (render_amount numberToString_1e21 (sample_tx\<lparr>amount := 1500\<rparr>)))"
    by blast
  from h m s show ?thesis by blast
qed

text \<open>
  Claim C8 as stated says the magnitude always has two decimal places. At the amount
  \<open>10^21\<close> the call \<open>toFixed(2)\<close> prints the number's own string, \<open>1e+21\<close>.
\<close>

theorem huge_amount_not_two_decimals:
  "cell_magnitude (render_amount numberToString_1e21 huge_tx) = ''1e+21''
   \<and> \<not> two_decimals (cell_magnitude (render_amount numberToString_1e21 huge_tx))"
proof -
  have m: "cell_magnitude (render_amount numberToString_1e21 huge_tx) = ''1e+21''"
    unfolding render_amount_def toFixed2_def Let_def
    by (simp add: huge_tx_def numberToString_1e21_def)
  have "\<not> two_decimals ''1e+21''"
    by (simp add: two_decimals_def)
  with m show ?thesis by simp
qed

text \<open>
  Claim C9. A transaction whose amount is 0 is rendered with the sign \<open>+\<close> and the
  magnitude \<open>0.00\<close>, in the neutral colour, not in the credit colour.
\<close>

theorem zero_amount_rendering:
  assumes "amount tx = 0"
  shows "cell_sign (render_amount numberToString tx) = ''+''
         \<and> cell_magnitude (render_amount numberToString tx) = ''0.00''
         \<and> cell_className (render_amount numberToString tx) =
             ''px-4 py-3 text-right font-mono font-medium whitespace-nowrap text-slate-200''
         \<and> cell_className (render_amount numberToString tx) \<noteq>
             ''px-4 py-3 text-right font-mono font-medium whitespace-nowrap text-emerald-400''"
  using assms
  by (simp add: render_amount_def toFixed2_zero)

theorem zero_amount_rendering_witness:
  "amount sample_tx = 0
   \<and> cell_sign (render_amount numberToString_1e21 sample_tx) = ''+''
   \<and> cell_magnitude (render_amount numberToString_1e21 sample_tx) = ''0.00''"
proof -
  have h: "amount sample_tx = 0"
    by (simp add: sample_tx_def)
  from zero_amount_rendering[OF h, of numberToString_1e21] h show ?thesis by simp
qed

text \<open>
  Claim C10. \<open>hasTransactions\<close> holds exactly when the transaction list exists and is
  not empty, and exactly then the Transactions button, with the length as its badge, is
  among the tabs. When the list is absent or empty, no sequence of clicks makes the
  Transactions tab active, so the table is not rendered and the download is not the CSV.
\<close>

theorem transactions_tab_offered_iff_nonempty:
  "(hasTransactions d \<longleftrightarrow> (\<exists>txs. transactions d = Some txs \<and> txs \<noteq> []))
   \<and> (TransactionsButton badge \<in> set (tab_buttons d) \<longleftrightarrow>
        (\<exists>txs. transactions d = Some txs \<and> txs \<noteq> [] \<and> badge = Some (length txs)))
   \<and> (transactions d = None \<or> transactions d = Some [] \<longrightarrow>
        \<not> hasTransactions d
        \<and> tab_buttons d = [AiJsonButton, RawTextButton]
        \<and> viewer_tab d clicks \<noteq> TabTransactions
        \<and> transactions_table numberToString d (viewer_tab d clicks) = None
        \<and> dl_extension (handleDownload stringify numberToString d (viewer_tab d clicks)) \<noteq> ''csv'')"
proof -
  have a: "hasTransactions d \<longleftrightarrow> (\<exists>txs. transactions d = Some txs \<and> txs \<noteq> [])"
    by (rule hasTransactions_iff)
  have b: "TransactionsButton badge \<in> set (tab_buttons d) \<longleftrightarrow>
        (\<exists>txs. transactions d = Some txs \<and> txs \<noteq> [] \<and> badge = Some (length txs))"
    by (auto simp: tab_buttons_def hasTransactions_iff)
  have c: "\<not> hasTransactions d
        \<and> tab_buttons d = [AiJsonButton, RawTextButton]
        \<and> viewer_tab d clicks \<noteq> TabTransactions
        \<and> transactions_table numberToString d (viewer_tab d clicks) = None
        \<and> dl_extension (handleDownload stringify numberToString d (viewer_tab d clicks)) \<noteq> ''csv''"
    if none: "transactions d = None \<or> transactions d = Some []"
  proof -
    from none have nh: "\<not> hasTransactions d"
      by (auto simp: hasTransactions_def)
    have nt: "viewer_tab d clicks \<noteq> TabTransactions"
      unfolding viewer_tab_def
      by (rule foldl_click_tab_without_transactions[OF nh]) simp
    show ?thesis
      using nh nt
      by (cases "viewer_tab d clicks")
         (simp_all add: tab_buttons_def transactions_table_def handleDownload_def)
  qed
  from a b c show ?thesis by blast
qed

theorem transactions_tab_offered_iff_nonempty_witness:
  "transactions sample_json = Some []
   \<and> \<not> hasTransactions sample_json
   \<and> tab_buttons sample_json = [AiJsonButton, RawTextButton]
   \<and> viewer_tab sample_json [TransactionsButton (Some 0), RawTextButton] = TabRawText
   \<and> transactions_table numberToString_1e21 sample_json
        (viewer_tab sample_json [TransactionsButton (Some 0), RawTextButton]) = None"
proof -
  have h: "transactions sample_json = Some []"
    by (simp add: sample_json_def)
  have v: "viewer_tab sample_json [TransactionsButton (Some 0), RawTextButton] = TabRawText"
    by (simp add: viewer_tab_def click_tab_def tab_buttons_def hasTransactions_def h)
  from transactions_tab_offered_iff_nonempty[of sample_json "Some 0"
      "[TransactionsButton (Some 0), RawTextButton]" numberToString_1e21 "\<lambda>d. []"] h v
  show ?thesis by simp
qed

end
